theory Spec2Isabelle
  imports Main "HOL-Library.Word"
begin

unbundle bit_operations_syntax

section \<open>Primitive types\<close>

text \<open>
  Go's fixed-width types. A \<open>float64\<close> is carried as its IEEE-754 binary64 bit pattern
  (what \<open>math.Float64bits\<close> returns): the program never does arithmetic on
  coordinates, it only stores, copies, compares and serialises them, and each of these is
  determined by the bit pattern.
\<close>

type_synonym byte = "8 word"
type_synonym uint8 = "8 word"
type_synonym int32 = "32 word"
type_synonym float64 = "64 word"

text \<open>The magnitude bits (exponent and fraction) of a binary64, as a number.\<close>

definition fmag :: "float64 \<Rightarrow> int" where
  "fmag x = uint (x AND 0x7FFFFFFFFFFFFFFF)"

text \<open>A binary64 is a NaN when its exponent is all ones and its fraction is not zero.\<close>

definition isNaN :: "float64 \<Rightarrow> bool" where
  "isNaN x = (0x7FF0000000000000 < fmag x)"

text \<open>
  On the values that are not NaN, the IEEE order is the order of the sign-magnitude
  integers; the two zeros share the key 0.
\<close>

definition fkey :: "float64 \<Rightarrow> int" where
  "fkey x = (if bit x 63 then - fmag x else fmag x)"

text \<open>Go's \<open><\<close>, \<open>>\<close> and \<open><=\<close> on float64: false as soon as an operand is a NaN.\<close>

definition flt :: "float64 \<Rightarrow> float64 \<Rightarrow> bool" where
  "flt a b = (\<not> isNaN a \<and> \<not> isNaN b \<and> fkey a < fkey b)"

definition fgt :: "float64 \<Rightarrow> float64 \<Rightarrow> bool" where
  "fgt a b = flt b a"

definition fle :: "float64 \<Rightarrow> float64 \<Rightarrow> bool" where
  "fle a b = (\<not> isNaN a \<and> \<not> isNaN b \<and> fkey a \<le> fkey b)"

section \<open>Box\<close>

record Box =
  MinX :: float64
  MinY :: float64
  MaxX :: float64
  MaxY :: float64

record Point =
  X :: float64
  Y :: float64

text \<open>The zero value of a \<open>Box\<close>, which is also the literal \<open>Box{0.0, 0.0, 0.0, 0.0}\<close>.\<close>

definition zeroBox :: Box where
  "zeroBox = \<lparr>MinX = 0, MinY = 0, MaxX = 0, MaxY = 0\<rparr>"

text \<open>\<open>func (b *Box) Extend(box Box)\<close>: the receiver is returned updated.\<close>

definition Extend :: "Box \<Rightarrow> Box \<Rightarrow> Box" where
  "Extend b box =
    (let b = (if flt (MinX box) (MinX b) then b\<lparr>MinX := MinX box\<rparr> else b);
         b = (if flt (MinY box) (MinY b) then b\<lparr>MinY := MinY box\<rparr> else b);
         b = (if fgt (MaxX box) (MaxX b) then b\<lparr>MaxX := MaxX box\<rparr> else b);
         b = (if fgt (MaxY box) (MaxY b) then b\<lparr>MaxY := MaxY box\<rparr> else b)
     in b)"

text \<open>
  The body of the \<open>range\<close> loop of \<open>BBoxFromPoints\<close> for index \<open>k\<close> and point \<open>p\<close>.
\<close>

definition BBoxFromPoints_body :: "nat \<Rightarrow> Point \<Rightarrow> Box \<Rightarrow> Box" where
  "BBoxFromPoints_body k p box =
    (if k = 0 then \<lparr>MinX = X p, MinY = Y p, MaxX = X p, MaxY = Y p\<rparr>
     else
       (let box = (if flt (X p) (MinX box) then box\<lparr>MinX := X p\<rparr> else box);
            box = (if flt (Y p) (MinY box) then box\<lparr>MinY := Y p\<rparr> else box);
            box = (if fgt (X p) (MaxX box) then box\<lparr>MaxX := X p\<rparr> else box);
            box = (if fgt (Y p) (MaxY box) then box\<lparr>MaxY := Y p\<rparr> else box)
        in box))"

fun BBoxFromPoints_loop :: "nat \<Rightarrow> Point list \<Rightarrow> Box \<Rightarrow> Box" where
  "BBoxFromPoints_loop k [] box = box"
| "BBoxFromPoints_loop k (p # points) box =
     BBoxFromPoints_loop (Suc k) points (BBoxFromPoints_body k p box)"

text \<open>The named result \<open>box\<close> starts at its zero value.\<close>

definition BBoxFromPoints :: "Point list \<Rightarrow> Box" where
  "BBoxFromPoints points = BBoxFromPoints_loop 0 points zeroBox"

section \<open>Little-endian byte order (\<open>binary.LittleEndian\<close>)\<close>

definition PutUint32 :: "32 word \<Rightarrow> byte list" where
  "PutUint32 v = [ucast v, ucast (drop_bit 8 v), ucast (drop_bit 16 v), ucast (drop_bit 24 v)]"

definition Uint32 :: "byte list \<Rightarrow> 32 word" where
  "Uint32 b =
     ucast (b ! 0) OR push_bit 8 (ucast (b ! 1)) OR push_bit 16 (ucast (b ! 2)) OR
     push_bit 24 (ucast (b ! 3))"

definition PutUint64 :: "64 word \<Rightarrow> byte list" where
  "PutUint64 v =
     [ucast v, ucast (drop_bit 8 v), ucast (drop_bit 16 v), ucast (drop_bit 24 v),
      ucast (drop_bit 32 v), ucast (drop_bit 40 v), ucast (drop_bit 48 v),
      ucast (drop_bit 56 v)]"

definition Uint64 :: "byte list \<Rightarrow> 64 word" where
  "Uint64 b =
     ucast (b ! 0) OR push_bit 8 (ucast (b ! 1)) OR push_bit 16 (ucast (b ! 2)) OR
     push_bit 24 (ucast (b ! 3)) OR push_bit 32 (ucast (b ! 4)) OR
     push_bit 40 (ucast (b ! 5)) OR push_bit 48 (ucast (b ! 6)) OR
     push_bit 56 (ucast (b ! 7))"

section \<open>Byte sources and sinks (\<open>io.Reader\<close>, \<open>io.Writer\<close>)\<close>

datatype io_error = EOF | ErrUnexpectedEOF | ErrShortWrite | ErrDevice

text \<open>
  A source is the bytes it still delivers and the error its \<open>Read\<close> returns once they are
  used up (\<open>EOF\<close> for a source that simply ends).
\<close>

record Reader =
  pending :: "byte list"
  fault :: io_error

text \<open>
  \<open>io.ReadFull(r, buf)\<close> for a buffer of \<open>n\<close> bytes: all \<open>n\<close> bytes, or an error after
  consuming what was left; \<open>EOF\<close> becomes \<open>ErrUnexpectedEOF\<close> when some bytes were read.
  A buffer of length 0 is filled without reading.
\<close>

definition ReadFull :: "Reader \<Rightarrow> nat \<Rightarrow> (io_error + byte list) \<times> Reader" where
  "ReadFull r n =
     (if n \<le> length (pending r)
      then (Inr (take n (pending r)), r\<lparr>pending := drop n (pending r)\<rparr>)
      else (Inl (if pending r \<noteq> [] \<and> fault r = EOF then ErrUnexpectedEOF else fault r),
            r\<lparr>pending := []\<rparr>))"

text \<open>
  \<open>binary.Read(r, order, data)\<close> for a destination whose encoding takes \<open>sz\<close> bytes:
  the bytes are read in full and decoded into the destination, or the error is returned
  and the destination keeps its content \<open>data\<close>.
\<close>

definition binary_Read ::
  "Reader \<Rightarrow> nat \<Rightarrow> (byte list \<Rightarrow> 'a) \<Rightarrow> 'a \<Rightarrow> io_error option \<times> Reader \<times> 'a" where
  "binary_Read r sz decode data =
     (case ReadFull r sz of
        (Inl err, r') \<Rightarrow> (Some err, r', data)
      | (Inr bs, r') \<Rightarrow> (None, r', decode bs))"

text \<open>
  A sink is the bytes it has accepted and the room it has left (\<open>None\<close>: it never
  refuses). A \<open>Write\<close> beyond the room accepts what fits and returns an error.
\<close>

record Writer =
  sunk :: "byte list"
  room :: "nat option"

definition Write :: "Writer \<Rightarrow> byte list \<Rightarrow> io_error option \<times> Writer" where
  "Write w bs =
     (case room w of
        None \<Rightarrow> (None, w\<lparr>sunk := sunk w @ bs\<rparr>)
      | Some k \<Rightarrow>
          if length bs \<le> k
          then (None, w\<lparr>sunk := sunk w @ bs, room := Some (k - length bs)\<rparr>)
          else (Some ErrShortWrite, w\<lparr>sunk := sunk w @ take k bs, room := Some 0\<rparr>))"

text \<open>\<open>binary.Write(w, order, data)\<close>: one \<open>Write\<close> of the encoding of \<open>data\<close>.\<close>

definition binary_Write ::
  "Writer \<Rightarrow> ('a \<Rightarrow> byte list) \<Rightarrow> 'a \<Rightarrow> io_error option \<times> Writer" where
  "binary_Write w encode data = Write w (encode data)"

section \<open>Wire encodings of the field types\<close>

definition enc_int32 :: "int32 \<Rightarrow> byte list" where
  "enc_int32 v = PutUint32 v"

definition dec_int32 :: "byte list \<Rightarrow> int32" where
  "dec_int32 bs = Uint32 bs"

definition enc_Point :: "Point \<Rightarrow> byte list" where
  "enc_Point p = PutUint64 (X p) @ PutUint64 (Y p)"

definition dec_Point :: "byte list \<Rightarrow> Point" where
  "dec_Point bs = \<lparr>X = Uint64 (take 8 bs), Y = Uint64 (take 8 (drop 8 bs))\<rparr>"

definition enc_Box :: "Box \<Rightarrow> byte list" where
  "enc_Box b = PutUint64 (MinX b) @ PutUint64 (MinY b) @ PutUint64 (MaxX b) @ PutUint64 (MaxY b)"

definition dec_Box :: "byte list \<Rightarrow> Box" where
  "dec_Box bs =
     \<lparr>MinX = Uint64 (take 8 bs), MinY = Uint64 (take 8 (drop 8 bs)),
      MaxX = Uint64 (take 8 (drop 16 bs)), MaxY = Uint64 (take 8 (drop 24 bs))\<rparr>"

text \<open>A slice is encoded element after element; its length is not part of the encoding.\<close>

definition enc_slice :: "('a \<Rightarrow> byte list) \<Rightarrow> 'a list \<Rightarrow> byte list" where
  "enc_slice enc xs = concat (map enc xs)"

text \<open>Decoding fills the \<open>n\<close> elements of the destination slice, \<open>k\<close> bytes each.\<close>

fun dec_slice :: "nat \<Rightarrow> (byte list \<Rightarrow> 'a) \<Rightarrow> nat \<Rightarrow> byte list \<Rightarrow> 'a list" where
  "dec_slice k dec 0 bs = []"
| "dec_slice k dec (Suc n) bs = dec (take k bs) # dec_slice k dec n (drop k bs)"

text \<open>
  What the builtin \<open>make\<close> does with a length read off the wire depends on the memory
  the process can get. That memory is a parameter of the model: \<open>heap\<close> is the largest
  number of bytes one allocation can take.
\<close>

datatype 'a made = Made "'a list" | LenOutOfRange | OutOfMemory

text \<open>
  \<open>make([]T, n)\<close> for an \<open>int32\<close> length \<open>n\<close> and elements of \<open>elem\<close> bytes: \<open>n\<close> zero
  elements. A negative length panics (\<open>makeslice: len out of range\<close>); an allocation of
  more than \<open>heap\<close> bytes ends the process (\<open>fatal error: out of memory\<close>), which is
  neither a return nor a panic. (On a 64-bit platform no \<open>int32\<close> length of elements of 4
  or 16 bytes reaches the runtime's own limit on the size of a slice. The buffers that
  \<open>binary.Read\<close> and \<open>binary.Write\<close> allocate are as large as the value they serve and
  are taken to fit where that value does.)
\<close>

definition make_slice :: "nat \<Rightarrow> nat \<Rightarrow> 'a \<Rightarrow> int32 \<Rightarrow> 'a made" where
  "make_slice heap elem zero n =
     (if sint n < 0 then LenOutOfRange
      else if heap < elem * nat (sint n) then OutOfMemory
      else Made (replicate (nat (sint n)) zero))"

section \<open>Shapes\<close>

text \<open>
  A call of \<open>read\<close> returns with the source and the receiver updated, or panics and
  leaves them as they were at the panic, or the process ends out of memory.
\<close>

datatype 'a outcome = Returned 'a | Panic 'a | Fatal

subsection \<open>Null\<close>

type_synonym Null = unit

definition Null_BBox :: "Null \<Rightarrow> Box" where
  "Null_BBox n = \<lparr>MinX = 0, MinY = 0, MaxX = 0, MaxY = 0\<rparr>"

definition Null_read :: "Reader \<Rightarrow> Null \<Rightarrow> Reader \<times> Null" where
  "Null_read file n = (let (err, file, n) = binary_Read file 0 (\<lambda>bs. ()) n in (file, n))"

definition Null_write :: "Writer \<Rightarrow> Null \<Rightarrow> Writer" where
  "Null_write file n = (let (err, file) = binary_Write file (\<lambda>n. []) n in file)"

subsection \<open>Point\<close>

definition zeroPoint :: Point where
  "zeroPoint = \<lparr>X = 0, Y = 0\<rparr>"

definition Point_BBox :: "Point \<Rightarrow> Box" where
  "Point_BBox p = \<lparr>MinX = X p, MinY = Y p, MaxX = X p, MaxY = Y p\<rparr>"

definition Point_read :: "Reader \<Rightarrow> Point \<Rightarrow> Reader \<times> Point" where
  "Point_read file p = (let (err, file, p) = binary_Read file 16 dec_Point p in (file, p))"

definition Point_write :: "Writer \<Rightarrow> Point \<Rightarrow> Writer" where
  "Point_write file p = (let (err, file) = binary_Write file enc_Point p in file)"

subsection \<open>PolyLine\<close>

text \<open>
  The embedded \<open>Box\<close> is a field of its own. A slice is the list of its elements: a nil
  slice and an empty one are both \<open>[]\<close>.
\<close>

record PolyLine =
  Box :: Box
  NumParts :: int32
  NumPoints :: int32
  Parts :: "int32 list"
  Points :: "Point list"

definition zeroPolyLine :: PolyLine where
  "zeroPolyLine = \<lparr>Box = zeroBox, NumParts = 0, NumPoints = 0, Parts = [], Points = []\<rparr>"

definition PolyLine_BBox :: "PolyLine \<Rightarrow> Box" where
  "PolyLine_BBox p = BBoxFromPoints (Points p)"

definition PolyLine_read ::
  "nat \<Rightarrow> Reader \<Rightarrow> PolyLine \<Rightarrow> (Reader \<times> PolyLine) outcome" where
  "PolyLine_read heap file p =
    (let (err, file, b) = binary_Read file 32 dec_Box (Box p);
         p = p\<lparr>Box := b\<rparr>;
         (err, file, n) = binary_Read file 4 dec_int32 (NumParts p);
         p = p\<lparr>NumParts := n\<rparr>;
         (err, file, n) = binary_Read file 4 dec_int32 (NumPoints p);
         p = p\<lparr>NumPoints := n\<rparr>
     in case make_slice heap 4 0 (NumParts p) of
          LenOutOfRange \<Rightarrow> Panic (file, p)
        | OutOfMemory \<Rightarrow> Fatal
        | Made parts \<Rightarrow>
           (let p = p\<lparr>Parts := parts\<rparr>
            in case make_slice heap 16 zeroPoint (NumPoints p) of
                 LenOutOfRange \<Rightarrow> Panic (file, p)
               | OutOfMemory \<Rightarrow> Fatal
               | Made points \<Rightarrow>
                  (let p = p\<lparr>Points := points\<rparr>;
                       (err, file, parts) =
                          binary_Read file (4 * length (Parts p))
                            (dec_slice 4 dec_int32 (length (Parts p))) (Parts p);
                       p = p\<lparr>Parts := parts\<rparr>;
                       (err, file, points) =
                          binary_Read file (16 * length (Points p))
                            (dec_slice 16 dec_Point (length (Points p))) (Points p);
                       p = p\<lparr>Points := points\<rparr>
                   in Returned (file, p))))"

definition PolyLine_write :: "Writer \<Rightarrow> PolyLine \<Rightarrow> Writer" where
  "PolyLine_write file p =
    (let (err, file) = binary_Write file enc_Box (Box p);
         (err, file) = binary_Write file enc_int32 (NumParts p);
         (err, file) = binary_Write file enc_int32 (NumPoints p);
         (err, file) = binary_Write file (enc_slice enc_int32) (Parts p);
         (err, file) = binary_Write file (enc_slice enc_Point) (Points p)
     in file)"

subsection \<open>Polygon\<close>

text \<open>\<open>type Polygon PolyLine\<close>: the same structure, with methods of its own.\<close>

type_synonym Polygon = PolyLine

definition Polygon_BBox :: "Polygon \<Rightarrow> Box" where
  "Polygon_BBox p = BBoxFromPoints (Points p)"

definition Polygon_read ::
  "nat \<Rightarrow> Reader \<Rightarrow> Polygon \<Rightarrow> (Reader \<times> Polygon) outcome" where
  "Polygon_read heap file p =
    (let (err, file, b) = binary_Read file 32 dec_Box (Box p);
         p = p\<lparr>Box := b\<rparr>;
         (err, file, n) = binary_Read file 4 dec_int32 (NumParts p);
         p = p\<lparr>NumParts := n\<rparr>;
         (err, file, n) = binary_Read file 4 dec_int32 (NumPoints p);
         p = p\<lparr>NumPoints := n\<rparr>
     in case make_slice heap 4 0 (NumParts p) of
          LenOutOfRange \<Rightarrow> Panic (file, p)
        | OutOfMemory \<Rightarrow> Fatal
        | Made parts \<Rightarrow>
           (let p = p\<lparr>Parts := parts\<rparr>
            in case make_slice heap 16 zeroPoint (NumPoints p) of
                 LenOutOfRange \<Rightarrow> Panic (file, p)
               | OutOfMemory \<Rightarrow> Fatal
               | Made points \<Rightarrow>
                  (let p = p\<lparr>Points := points\<rparr>;
                       (err, file, parts) =
                          binary_Read file (4 * length (Parts p))
                            (dec_slice 4 dec_int32 (length (Parts p))) (Parts p);
                       p = p\<lparr>Parts := parts\<rparr>;
                       (err, file, points) =
                          binary_Read file (16 * length (Points p))
                            (dec_slice 16 dec_Point (length (Points p))) (Points p);
                       p = p\<lparr>Points := points\<rparr>
                   in Returned (file, p))))"

definition Polygon_write :: "Writer \<Rightarrow> Polygon \<Rightarrow> Writer" where
  "Polygon_write file p =
    (let (err, file) = binary_Write file enc_Box (Box p);
         (err, file) = binary_Write file enc_int32 (NumParts p);
         (err, file) = binary_Write file enc_int32 (NumPoints p);
         (err, file) = binary_Write file (enc_slice enc_int32) (Parts p);
         (err, file) = binary_Write file (enc_slice enc_Point) (Points p)
     in file)"

section \<open>DBF field descriptors\<close>

text \<open>The fixed-size arrays are lists of the declared lengths 11, 4 and 14.\<close>

record Field =
  Name :: "byte list"
  Fieldtype :: byte
  Addr :: "byte list"
  Size :: uint8
  Precision :: uint8
  Padding :: "byte list"

definition zeroField :: Field where
  "zeroField =
     \<lparr>Name = replicate 11 0, Fieldtype = 0, Addr = replicate 4 0, Size = 0, Precision = 0,
      Padding = replicate 14 0\<rparr>"

text \<open>\<open>[]byte(name)\<close>: a Go string is its bytes.\<close>

definition bytes_of :: "string \<Rightarrow> byte list" where
  "bytes_of s = map of_char s"

text \<open>
  The builtin \<open>copy(dst, src)\<close>: the first \<open>min(len(dst), len(src))\<close> elements of \<open>dst\<close>
  are overwritten.
\<close>

definition copy :: "'a list \<Rightarrow> 'a list \<Rightarrow> 'a list" where
  "copy dst src = (let n = min (length dst) (length src) in take n src @ drop n dst)"

definition StringField :: "string \<Rightarrow> uint8 \<Rightarrow> Field" where
  "StringField name len =
     (let field = zeroField\<lparr>Fieldtype := of_char CHR ''C'', Size := len\<rparr>;
          field = field\<lparr>Name := copy (Name field) (bytes_of name)\<rparr>
      in field)"

definition NumberField :: "string \<Rightarrow> uint8 \<Rightarrow> Field" where
  "NumberField name len =
     (let field = zeroField\<lparr>Fieldtype := of_char CHR ''N'', Size := len\<rparr>;
          field = field\<lparr>Name := copy (Name field) (bytes_of name)\<rparr>
      in field)"

definition FloatField :: "string \<Rightarrow> uint8 \<Rightarrow> uint8 \<Rightarrow> Field" where
  "FloatField name len precision =
     (let field = zeroField\<lparr>Fieldtype := of_char CHR ''F'', Size := len, Precision := precision\<rparr>;
          field = field\<lparr>Name := copy (Name field) (bytes_of name)\<rparr>
      in field)"

definition DateField :: "string \<Rightarrow> Field" where
  "DateField name =
     (let field = zeroField\<lparr>Fieldtype := of_char CHR ''D'', Size := 8\<rparr>;
          field = field\<lparr>Name := copy (Name field) (bytes_of name)\<rparr>
      in field)"

section \<open>Properties stated by the specification\<close>

text \<open>
  A box covers a point when the point lies between its bounds, in the order of the
  coordinates (Go's \<open><=\<close>).
\<close>

definition covers :: "Box \<Rightarrow> Point \<Rightarrow> bool" where
  "covers b p =
     (fle (MinX b) (X p) \<and> fle (X p) (MaxX b) \<and> fle (MinY b) (Y p) \<and> fle (Y p) (MaxY b))"

text \<open>The invariant of the data model: the counts are the lengths of the arrays.\<close>

definition valid_PolyLine :: "PolyLine \<Rightarrow> bool" where
  "valid_PolyLine p =
     (sint (NumParts p) = int (length (Parts p)) \<and> sint (NumPoints p) = int (length (Points p)))"

text \<open>Arrays as long as those of \<open>p\<close> can be allocated: the memory \<open>p\<close> itself takes.\<close>

definition allocatable :: "nat \<Rightarrow> PolyLine \<Rightarrow> bool" where
  "allocatable heap p = (4 * length (Parts p) \<le> heap \<and> 16 * length (Points p) \<le> heap)"

text \<open>The bytes a sink that never refuses receives from \<open>write\<close>.\<close>

definition buffer :: Writer where
  "buffer = \<lparr>sunk = [], room = None\<rparr>"

section \<open>The order of coordinates\<close>

lemma flt_irrefl: "\<not> flt a a"
  by (simp add: flt_def)

lemma flt_fle: "fle a b \<Longrightarrow> \<not> flt b a"
  by (simp add: flt_def fle_def)

lemma fle_refl: "\<not> isNaN a \<Longrightarrow> fle a a"
  by (simp add: fle_def)

lemma fle_trans: "fle a b \<Longrightarrow> fle b c \<Longrightarrow> fle a c"
  by (simp add: fle_def)

lemma flt_imp_fle: "flt a b \<Longrightarrow> fle a b"
  by (simp add: flt_def fle_def)

lemma not_flt_fle: "\<not> isNaN a \<Longrightarrow> \<not> isNaN b \<Longrightarrow> \<not> flt a b \<Longrightarrow> fle b a"
  by (simp add: flt_def fle_def)

section \<open>Extend\<close>

lemma Extend_sel:
  "MinX (Extend b box) = (if flt (MinX box) (MinX b) then MinX box else MinX b)"
  "MinY (Extend b box) = (if flt (MinY box) (MinY b) then MinY box else MinY b)"
  "MaxX (Extend b box) = (if fgt (MaxX box) (MaxX b) then MaxX box else MaxX b)"
  "MaxY (Extend b box) = (if fgt (MaxY box) (MaxY b) then MaxY box else MaxY b)"
  by (simp_all add: Extend_def Let_def)

lemma Extend_idem: "Extend (Extend a b) b = Extend a b"
  by (rule Box.equality) (simp_all add: Extend_sel flt_irrefl fgt_def)

lemma Extend_contained:
  assumes "fle (MinX a) (MinX b)" and "fle (MinY a) (MinY b)"
    and "fle (MaxX b) (MaxX a)" and "fle (MaxY b) (MaxY a)"
  shows "Extend a b = a"
  using assms by (intro Box.equality) (simp_all add: Extend_sel flt_fle fgt_def)

lemma Extend_widens:
  "MinX (Extend a b) = MinX a \<or> flt (MinX (Extend a b)) (MinX a)"
  "MinY (Extend a b) = MinY a \<or> flt (MinY (Extend a b)) (MinY a)"
  "MaxX (Extend a b) = MaxX a \<or> fgt (MaxX (Extend a b)) (MaxX a)"
  "MaxY (Extend a b) = MaxY a \<or> fgt (MaxY (Extend a b)) (MaxY a)"
  by (simp_all add: Extend_sel)

text \<open>
  C7. \<open>Box.Extend\<close> is idempotent (extending by the same box twice gives the box that
  extending once gives) and leaves a box unchanged when the other box is contained in it;
  it never narrows a bound: each bound of the result is the old bound, bit for bit, or
  lies strictly outside it (a lower minimum, a higher maximum), hence is never greater
  than the old minimum nor less than the old maximum.
\<close>

theorem Extend_idempotent_contained_never_narrows:
  "Extend (Extend a b) b = Extend a b \<and>
   (fle (MinX a) (MinX b) \<and> fle (MinY a) (MinY b) \<and> fle (MaxX b) (MaxX a) \<and>
    fle (MaxY b) (MaxY a) \<longrightarrow> Extend a b = a) \<and>
   (MinX (Extend a b) = MinX a \<or> flt (MinX (Extend a b)) (MinX a)) \<and>
   (MinY (Extend a b) = MinY a \<or> flt (MinY (Extend a b)) (MinY a)) \<and>
   (MaxX (Extend a b) = MaxX a \<or> fgt (MaxX (Extend a b)) (MaxX a)) \<and>
   (MaxY (Extend a b) = MaxY a \<or> fgt (MaxY (Extend a b)) (MaxY a)) \<and>
   \<not> fgt (MinX (Extend a b)) (MinX a) \<and> \<not> fgt (MinY (Extend a b)) (MinY a) \<and>
   \<not> flt (MaxX (Extend a b)) (MaxX a) \<and> \<not> flt (MaxY (Extend a b)) (MaxY a)"
proof -
  have narrow:
    "\<not> fgt (MinX (Extend a b)) (MinX a)" "\<not> fgt (MinY (Extend a b)) (MinY a)"
    "\<not> flt (MaxX (Extend a b)) (MaxX a)" "\<not> flt (MaxY (Extend a b)) (MaxY a)"
    by (simp_all add: Extend_sel fgt_def flt_irrefl) (simp_all add: flt_def)
  show ?thesis
    using Extend_idem [of a b] Extend_contained [of a b] Extend_widens [of a b] narrow
    by blast
qed

text \<open>
  The box with bounds -1, 0, 3, 5 extended by the box of the point (1, 2), which it
  contains (\<open>0xBFF0000000000000\<close> is -1, \<open>0x3FF0000000000000\<close> is 1,
  \<open>0x4000000000000000\<close> is 2, \<open>0x4008000000000000\<close> is 3, \<open>0x4014000000000000\<close> is 5).
\<close>

theorem Extend_idempotent_contained_never_narrows_witness:
  "fle 0xBFF0000000000000 0x3FF0000000000000 \<and> fle 0 0x4000000000000000 \<and>
   fle 0x3FF0000000000000 0x4008000000000000 \<and> fle 0x4000000000000000 0x4014000000000000 \<and>
   Extend \<lparr>MinX = 0xBFF0000000000000, MinY = 0, MaxX = 0x4008000000000000,
            MaxY = 0x4014000000000000\<rparr>
          \<lparr>MinX = 0x3FF0000000000000, MinY = 0x4000000000000000, MaxX = 0x3FF0000000000000,
            MaxY = 0x4000000000000000\<rparr>
     = \<lparr>MinX = 0xBFF0000000000000, MinY = 0, MaxX = 0x4008000000000000,
        MaxY = 0x4014000000000000\<rparr>"
proof -
  have h: "fle 0xBFF0000000000000 0x3FF0000000000000" "fle 0 0x4000000000000000"
    "fle 0x3FF0000000000000 0x4008000000000000" "fle 0x4000000000000000 0x4014000000000000"
    by (simp_all add: fle_def isNaN_def fkey_def fmag_def)
  show ?thesis
    using h
      Extend_idempotent_contained_never_narrows
        [of "\<lparr>MinX = 0xBFF0000000000000, MinY = 0, MaxX = 0x4008000000000000,
              MaxY = 0x4014000000000000\<rparr>"
            "\<lparr>MinX = 0x3FF0000000000000, MinY = 0x4000000000000000,
              MaxX = 0x3FF0000000000000, MaxY = 0x4000000000000000\<rparr>"]
    by simp
qed

section \<open>BBoxFromPoints\<close>

lemma body_0: "BBoxFromPoints_body 0 p box = Point_BBox p"
  by (simp add: BBoxFromPoints_body_def Point_BBox_def)

lemma body_Suc_sel:
  "MinX (BBoxFromPoints_body (Suc k) p b) = (if flt (X p) (MinX b) then X p else MinX b)"
  "MinY (BBoxFromPoints_body (Suc k) p b) = (if flt (Y p) (MinY b) then Y p else MinY b)"
  "MaxX (BBoxFromPoints_body (Suc k) p b) = (if fgt (X p) (MaxX b) then X p else MaxX b)"
  "MaxY (BBoxFromPoints_body (Suc k) p b) = (if fgt (Y p) (MaxY b) then Y p else MaxY b)"
  by (simp_all add: BBoxFromPoints_body_def Let_def)

lemma body_Suc: "BBoxFromPoints_body (Suc k) p b = Extend b (Point_BBox p)"
  by (rule Box.equality) (simp_all add: body_Suc_sel Extend_sel Point_BBox_def)

lemma loop_Suc:
  "BBoxFromPoints_loop (Suc k) ps b = foldl (\<lambda>b q. Extend b (Point_BBox q)) b ps"
  by (induction ps arbitrary: k b) (simp_all add: body_Suc)

lemma BBoxFromPoints_Cons:
  "BBoxFromPoints (p # ps) = foldl (\<lambda>b q. Extend b (Point_BBox q)) (Point_BBox p) ps"
  by (simp add: BBoxFromPoints_def body_0 loop_Suc)

lemma BBoxFromPoints_snoc:
  "ps \<noteq> [] \<Longrightarrow> BBoxFromPoints (ps @ [q]) = Extend (BBoxFromPoints ps) (Point_BBox q)"
  by (cases ps) (simp_all add: BBoxFromPoints_Cons)

lemma Extend_eval:
  "Extend \<lparr>MinX = a, MinY = b, MaxX = c, MaxY = d\<rparr>
          \<lparr>MinX = a', MinY = b', MaxX = c', MaxY = d'\<rparr> =
   \<lparr>MinX = if flt a' a then a' else a, MinY = if flt b' b then b' else b,
    MaxX = if fgt c' c then c' else c, MaxY = if fgt d' d then d' else d\<rparr>"
  by (rule Box.equality) (simp_all add: Extend_sel)

lemma Point_BBox_sel:
  "MinX (Point_BBox p) = X p" "MinY (Point_BBox p) = Y p"
  "MaxX (Point_BBox p) = X p" "MaxY (Point_BBox p) = Y p"
  by (simp_all add: Point_BBox_def)

lemma fold_sel:
  "MinX (foldl (\<lambda>b q. Extend b (Point_BBox q)) b ps) =
     foldl (\<lambda>m x. if flt x m then x else m) (MinX b) (map X ps)"
  "MinY (foldl (\<lambda>b q. Extend b (Point_BBox q)) b ps) =
     foldl (\<lambda>m x. if flt x m then x else m) (MinY b) (map Y ps)"
  "MaxX (foldl (\<lambda>b q. Extend b (Point_BBox q)) b ps) =
     foldl (\<lambda>m x. if fgt x m then x else m) (MaxX b) (map X ps)"
  "MaxY (foldl (\<lambda>b q. Extend b (Point_BBox q)) b ps) =
     foldl (\<lambda>m x. if fgt x m then x else m) (MaxY b) (map Y ps)"
  by (induction ps arbitrary: b; simp add: Extend_sel Point_BBox_sel)+

lemma fmin_attained:
  "foldl (\<lambda>m x. if flt x m then x else m) m xs \<in> insert m (set xs)"
  by (induction xs arbitrary: m) auto

lemma fmax_attained:
  "foldl (\<lambda>m x. if fgt x m then x else m) m xs \<in> insert m (set xs)"
  by (induction xs arbitrary: m) auto

lemma fmin_lower:
  "\<not> isNaN m \<Longrightarrow> \<forall>x\<in>set xs. \<not> isNaN x \<Longrightarrow>
   fle (foldl (\<lambda>m x. if flt x m then x else m) m xs) m \<and>
   (\<forall>x\<in>set xs. fle (foldl (\<lambda>m x. if flt x m then x else m) m xs) x)"
proof (induction xs arbitrary: m)
  case Nil
  then show ?case by (simp add: fle_refl)
next
  case (Cons y ys)
  let ?m' = "if flt y m then y else m"
  have m': "\<not> isNaN ?m'" using Cons.prems by simp
  have step: "fle ?m' m \<and> fle ?m' y"
    using Cons.prems by (simp add: flt_imp_fle fle_refl not_flt_fle)
  have IH: "fle (foldl (\<lambda>m x. if flt x m then x else m) ?m' ys) ?m' \<and>
   (\<forall>x\<in>set ys. fle (foldl (\<lambda>m x. if flt x m then x else m) ?m' ys) x)"
    using Cons.IH [OF m'] Cons.prems by simp
  show ?case
    using IH step by (auto intro: fle_trans)
qed

lemma fmax_upper:
  "\<not> isNaN m \<Longrightarrow> \<forall>x\<in>set xs. \<not> isNaN x \<Longrightarrow>
   fle m (foldl (\<lambda>m x. if fgt x m then x else m) m xs) \<and>
   (\<forall>x\<in>set xs. fle x (foldl (\<lambda>m x. if fgt x m then x else m) m xs))"
proof (induction xs arbitrary: m)
  case Nil
  then show ?case by (simp add: fle_refl)
next
  case (Cons y ys)
  let ?m' = "if fgt y m then y else m"
  have m': "\<not> isNaN ?m'" using Cons.prems by simp
  have step: "fle m ?m' \<and> fle y ?m'"
    using Cons.prems by (simp add: fgt_def flt_imp_fle fle_refl not_flt_fle)
  have IH: "fle ?m' (foldl (\<lambda>m x. if fgt x m then x else m) ?m' ys) \<and>
   (\<forall>x\<in>set ys. fle x (foldl (\<lambda>m x. if fgt x m then x else m) ?m' ys))"
    using Cons.IH [OF m'] Cons.prems by simp
  show ?case
    using IH step by (auto intro: fle_trans)
qed

lemma BBoxFromPoints_attained:
  assumes "points \<noteq> []"
  shows "MinX (BBoxFromPoints points) \<in> X ` set points"
    and "MinY (BBoxFromPoints points) \<in> Y ` set points"
    and "MaxX (BBoxFromPoints points) \<in> X ` set points"
    and "MaxY (BBoxFromPoints points) \<in> Y ` set points"
proof -
  obtain p ps where ps: "points = p # ps"
    using assms by (cases points) auto
  show "MinX (BBoxFromPoints points) \<in> X ` set points"
    using fmin_attained [of "X p" "map X ps"]
    by (simp add: ps BBoxFromPoints_Cons fold_sel Point_BBox_sel)
  show "MinY (BBoxFromPoints points) \<in> Y ` set points"
    using fmin_attained [of "Y p" "map Y ps"]
    by (simp add: ps BBoxFromPoints_Cons fold_sel Point_BBox_sel)
  show "MaxX (BBoxFromPoints points) \<in> X ` set points"
    using fmax_attained [of "X p" "map X ps"]
    by (simp add: ps BBoxFromPoints_Cons fold_sel Point_BBox_sel)
  show "MaxY (BBoxFromPoints points) \<in> Y ` set points"
    using fmax_attained [of "Y p" "map Y ps"]
    by (simp add: ps BBoxFromPoints_Cons fold_sel Point_BBox_sel)
qed

lemma BBoxFromPoints_covers:
  assumes "points \<noteq> []" and nan: "\<forall>p\<in>set points. \<not> isNaN (X p) \<and> \<not> isNaN (Y p)"
    and q: "q \<in> set points"
  shows "covers (BBoxFromPoints points) q"
proof -
  obtain p ps where ps: "points = p # ps"
    using assms by (cases points) auto
  have nx: "\<not> isNaN (X p)" "\<forall>x\<in>set (map X ps). \<not> isNaN x"
    and ny: "\<not> isNaN (Y p)" "\<forall>y\<in>set (map Y ps). \<not> isNaN y"
    using nan by (simp_all add: ps)
  have qx: "X q = X p \<or> X q \<in> set (map X ps)" and qy: "Y q = Y p \<or> Y q \<in> set (map Y ps)"
    using q by (auto simp add: ps)
  have "fle (MinX (BBoxFromPoints points)) (X q)"
    using fmin_lower [OF nx] qx
    by (auto simp add: ps BBoxFromPoints_Cons fold_sel Point_BBox_sel)
  moreover have "fle (MinY (BBoxFromPoints points)) (Y q)"
    using fmin_lower [OF ny] qy
    by (auto simp add: ps BBoxFromPoints_Cons fold_sel Point_BBox_sel)
  moreover have "fle (X q) (MaxX (BBoxFromPoints points))"
    using fmax_upper [OF nx] qx
    by (auto simp add: ps BBoxFromPoints_Cons fold_sel Point_BBox_sel)
  moreover have "fle (Y q) (MaxY (BBoxFromPoints points))"
    using fmax_upper [OF ny] qy
    by (auto simp add: ps BBoxFromPoints_Cons fold_sel Point_BBox_sel)
  ultimately show ?thesis
    by (simp add: covers_def)
qed

text \<open>
  C5 (as amended). For every non-empty point sequence none of whose coordinates is a NaN,
  \<open>BBoxFromPoints\<close> returns the minimal axis-aligned covering box: the box covers every
  point, each of its bounds is a coordinate of some point, and every box covering all the
  points contains it. The first point seeds all four bounds, and a further point only
  relaxes them: the box of the sequence with one more point is the \<open>Extend\<close> of the box by
  that point. The box of (1, 2), (-1, 5), (3, 0) has the bounds -1, 0, 3, 5.
\<close>

theorem BBoxFromPoints_minimal_cover:
  assumes "points \<noteq> []" and "\<forall>p\<in>set points. \<not> isNaN (X p) \<and> \<not> isNaN (Y p)"
  shows "(\<forall>p\<in>set points. covers (BBoxFromPoints points) p) \<and>
    (\<exists>p\<in>set points. MinX (BBoxFromPoints points) = X p) \<and>
    (\<exists>p\<in>set points. MinY (BBoxFromPoints points) = Y p) \<and>
    (\<exists>p\<in>set points. MaxX (BBoxFromPoints points) = X p) \<and>
    (\<exists>p\<in>set points. MaxY (BBoxFromPoints points) = Y p) \<and>
    (\<forall>b. (\<forall>p\<in>set points. covers b p) \<longrightarrow>
       fle (MinX b) (MinX (BBoxFromPoints points)) \<and>
       fle (MinY b) (MinY (BBoxFromPoints points)) \<and>
       fle (MaxX (BBoxFromPoints points)) (MaxX b) \<and>
       fle (MaxY (BBoxFromPoints points)) (MaxY b)) \<and>
    BBoxFromPoints [hd points] = Point_BBox (hd points) \<and>
    (\<forall>q. BBoxFromPoints (points @ [q]) = Extend (BBoxFromPoints points) (Point_BBox q)) \<and>
    BBoxFromPoints
      [\<lparr>X = 0x3FF0000000000000, Y = 0x4000000000000000\<rparr>,
       \<lparr>X = 0xBFF0000000000000, Y = 0x4014000000000000\<rparr>,
       \<lparr>X = 0x4008000000000000, Y = 0\<rparr>] =
     \<lparr>MinX = 0xBFF0000000000000, MinY = 0, MaxX = 0x4008000000000000,
      MaxY = 0x4014000000000000\<rparr>"
proof -
  let ?r = "BBoxFromPoints points"
  have cov: "\<forall>p\<in>set points. covers ?r p"
    using BBoxFromPoints_covers [OF assms] by blast
  have att: "\<exists>p\<in>set points. MinX ?r = X p" "\<exists>p\<in>set points. MinY ?r = Y p"
    "\<exists>p\<in>set points. MaxX ?r = X p" "\<exists>p\<in>set points. MaxY ?r = Y p"
    using BBoxFromPoints_attained [OF assms(1)] by auto
  have least: "\<forall>b. (\<forall>p\<in>set points. covers b p) \<longrightarrow>
       fle (MinX b) (MinX ?r) \<and> fle (MinY b) (MinY ?r) \<and>
       fle (MaxX ?r) (MaxX b) \<and> fle (MaxY ?r) (MaxY b)"
    using att by (metis covers_def)
  have seed: "BBoxFromPoints [hd points] = Point_BBox (hd points)"
    by (simp add: BBoxFromPoints_Cons)
  have relax: "\<forall>q. BBoxFromPoints (points @ [q]) = Extend ?r (Point_BBox q)"
    using BBoxFromPoints_snoc [OF assms(1)] by simp
  have ex: "BBoxFromPoints
      [\<lparr>X = 0x3FF0000000000000, Y = 0x4000000000000000\<rparr>,
       \<lparr>X = 0xBFF0000000000000, Y = 0x4014000000000000\<rparr>,
       \<lparr>X = 0x4008000000000000, Y = 0\<rparr>] =
     \<lparr>MinX = 0xBFF0000000000000, MinY = 0, MaxX = 0x4008000000000000,
      MaxY = 0x4014000000000000\<rparr>"
    by (simp add: BBoxFromPoints_Cons Point_BBox_def Extend_eval
        flt_def fgt_def isNaN_def fkey_def fmag_def)
  show ?thesis
    using cov att least seed relax ex by blast
qed

text \<open>The three points of the example, none a NaN; the second is covered.\<close>

theorem BBoxFromPoints_minimal_cover_witness:
  "[\<lparr>X = 0x3FF0000000000000, Y = 0x4000000000000000\<rparr>,
    \<lparr>X = 0xBFF0000000000000, Y = 0x4014000000000000\<rparr>,
    \<lparr>X = 0x4008000000000000, Y = 0\<rparr>] \<noteq> [] \<and>
   \<not> isNaN 0x3FF0000000000000 \<and> \<not> isNaN 0x4000000000000000 \<and>
   \<not> isNaN 0xBFF0000000000000 \<and> \<not> isNaN 0x4014000000000000 \<and>
   \<not> isNaN 0x4008000000000000 \<and> \<not> isNaN 0 \<and>
   covers
     (BBoxFromPoints
       [\<lparr>X = 0x3FF0000000000000, Y = 0x4000000000000000\<rparr>,
        \<lparr>X = 0xBFF0000000000000, Y = 0x4014000000000000\<rparr>,
        \<lparr>X = 0x4008000000000000, Y = 0\<rparr>])
     \<lparr>X = 0xBFF0000000000000, Y = 0x4014000000000000\<rparr>"
proof -
  let ?pts = "[\<lparr>X = 0x3FF0000000000000, Y = 0x4000000000000000\<rparr>,
    \<lparr>X = 0xBFF0000000000000, Y = 0x4014000000000000\<rparr>,
    \<lparr>X = 0x4008000000000000, Y = 0\<rparr>]"
  have ne: "?pts \<noteq> []"
    by simp
  have h: "\<not> isNaN 0x3FF0000000000000" "\<not> isNaN 0x4000000000000000"
   "\<not> isNaN 0xBFF0000000000000" "\<not> isNaN 0x4014000000000000"
   "\<not> isNaN 0x4008000000000000" "\<not> isNaN 0"
    by (simp_all add: isNaN_def fmag_def)
  have nan: "\<forall>p\<in>set ?pts. \<not> isNaN (X p) \<and> \<not> isNaN (Y p)"
    using h by simp
  have "\<forall>p\<in>set ?pts. covers (BBoxFromPoints ?pts) p"
    using BBoxFromPoints_minimal_cover [OF ne nan] by (rule conjunct1)
  then have "covers (BBoxFromPoints ?pts) \<lparr>X = 0xBFF0000000000000, Y = 0x4014000000000000\<rparr>"
    by simp
  then show ?thesis
    using ne h by blast
qed

text \<open>
  C5 (as stated) fails where a coordinate is a NaN (\<open>0x7FF8000000000000\<close>): every
  comparison with a NaN is false, so a first point with NaN coordinates seeds bounds that
  no later point relaxes, and the box returned for the points (NaN, NaN), (1, 2) does not
  cover (1, 2).
\<close>

theorem BBoxFromPoints_NaN_counterexample:
  "BBoxFromPoints
      [\<lparr>X = 0x7FF8000000000000, Y = 0x7FF8000000000000\<rparr>,
       \<lparr>X = 0x3FF0000000000000, Y = 0x4000000000000000\<rparr>] =
     \<lparr>MinX = 0x7FF8000000000000, MinY = 0x7FF8000000000000, MaxX = 0x7FF8000000000000,
      MaxY = 0x7FF8000000000000\<rparr> \<and>
   \<not> covers
      (BBoxFromPoints
        [\<lparr>X = 0x7FF8000000000000, Y = 0x7FF8000000000000\<rparr>,
         \<lparr>X = 0x3FF0000000000000, Y = 0x4000000000000000\<rparr>])
      \<lparr>X = 0x3FF0000000000000, Y = 0x4000000000000000\<rparr>"
  by (simp add: BBoxFromPoints_Cons Point_BBox_def Extend_eval covers_def
        flt_def fgt_def fle_def isNaN_def fkey_def fmag_def)

text \<open>
  C6. \<open>BBoxFromPoints\<close> of the empty sequence is the zero box: the loop body never
  runs and the named result keeps its zero value.
\<close>

theorem BBoxFromPoints_empty:
  "BBoxFromPoints [] = \<lparr>MinX = 0, MinY = 0, MaxX = 0, MaxY = 0\<rparr>"
  by (simp add: BBoxFromPoints_def zeroBox_def)

section \<open>Bounding boxes of shapes\<close>

text \<open>
  C4. \<open>BBox()\<close> of a PolyLine and of a Polygon is \<open>BBoxFromPoints\<close> of its \<open>Points\<close>,
  whatever the stored \<open>Box\<close> field holds: replacing the stored box by any other leaves
  the result unchanged.
\<close>

theorem BBox_from_Points_not_stored_Box:
  "PolyLine_BBox p = BBoxFromPoints (Points p) \<and>
   Polygon_BBox p = BBoxFromPoints (Points p) \<and>
   PolyLine_BBox (p\<lparr>Box := b\<rparr>) = PolyLine_BBox p \<and>
   Polygon_BBox (p\<lparr>Box := b\<rparr>) = Polygon_BBox p \<and>
   PolyLine_BBox \<lparr>Box = b, NumParts = n, NumPoints = m, Parts = parts, Points = points\<rparr> =
     PolyLine_BBox \<lparr>Box = b', NumParts = n, NumPoints = m, Parts = parts, Points = points\<rparr> \<and>
   Polygon_BBox \<lparr>Box = b, NumParts = n, NumPoints = m, Parts = parts, Points = points\<rparr> =
     Polygon_BBox \<lparr>Box = b', NumParts = n, NumPoints = m, Parts = parts, Points = points\<rparr>"
  by (simp add: PolyLine_BBox_def Polygon_BBox_def)

section \<open>The shared wire layout of PolyLine and Polygon\<close>

lemma Polygon_write_eq: "Polygon_write = PolyLine_write"
  by (intro ext) (simp add: Polygon_write_def PolyLine_write_def)

lemma Polygon_read_eq: "Polygon_read = PolyLine_read"
  by (intro ext) (simp add: Polygon_read_def PolyLine_read_def)

text \<open>
  C3. A Polygon and a PolyLine constructed with the same \<open>Box\<close>, \<open>NumParts\<close>,
  \<open>NumPoints\<close>, \<open>Parts\<close> and \<open>Points\<close> values write the same bytes to any sink (and
  leave it in the same state).
\<close>

theorem Polygon_PolyLine_same_bytes:
  "sunk (Polygon_write file
      \<lparr>Box = b, NumParts = n, NumPoints = m, Parts = parts, Points = points\<rparr>) =
   sunk (PolyLine_write file
      \<lparr>Box = b, NumParts = n, NumPoints = m, Parts = parts, Points = points\<rparr>) \<and>
   Polygon_write file
      \<lparr>Box = b, NumParts = n, NumPoints = m, Parts = parts, Points = points\<rparr> =
   PolyLine_write file
      \<lparr>Box = b, NumParts = n, NumPoints = m, Parts = parts, Points = points\<rparr>"
  by (simp add: Polygon_write_eq)

section \<open>Field constructors\<close>

lemma copy_Name: "copy (replicate 11 0) bs = take 11 bs @ replicate (11 - length bs) 0"
  by (simp add: copy_def Let_def min_def)

lemma StringField_sel:
  "Name (StringField name len) = take 11 (bytes_of name) @ replicate (11 - length name) 0"
  "Fieldtype (StringField name len) = of_char CHR ''C''"
  "Addr (StringField name len) = replicate 4 0"
  "Size (StringField name len) = len"
  "Precision (StringField name len) = 0"
  "Padding (StringField name len) = replicate 14 0"
  by (simp_all add: StringField_def zeroField_def Let_def copy_Name bytes_of_def)

text \<open>
  C9. \<open>StringField(name, length)\<close> has \<open>Fieldtype\<close> 'C' and \<open>Size\<close> \<open>length\<close>; its
  \<open>Name\<close> holds the first 11 bytes of the name, left-justified and zero-padded to 11
  bytes, a longer name being cut after its 11th byte; \<open>Addr\<close>, \<open>Padding\<close> (and
  \<open>Precision\<close>) are zero. \<open>StringField("City", 50)\<close> has the name "City" followed by
  seven zero bytes.
\<close>

theorem StringField_layout:
  "Fieldtype (StringField name len) = of_char CHR ''C'' \<and>
   Size (StringField name len) = len \<and>
   Name (StringField name len) = take 11 (bytes_of name) @ replicate (11 - length name) 0 \<and>
   length (Name (StringField name len)) = 11 \<and>
   take (min 11 (length name)) (Name (StringField name len)) = take 11 (bytes_of name) \<and>
   drop (length name) (Name (StringField name len)) = replicate (11 - length name) 0 \<and>
   Addr (StringField name len) = replicate 4 0 \<and>
   Padding (StringField name len) = replicate 14 0 \<and>
   Precision (StringField name len) = 0 \<and>
   StringField ''City'' 50 =
     \<lparr>Name = bytes_of ''City'' @ replicate 7 0, Fieldtype = of_char CHR ''C'',
      Addr = replicate 4 0, Size = 50, Precision = 0, Padding = replicate 14 0\<rparr> \<and>
   Name (StringField ''ExceedsElevenChars'' 10) = bytes_of ''ExceedsElev''"
proof -
  have len: "length (bytes_of name) = length name"
    by (simp add: bytes_of_def)
  have city: "StringField ''City'' 50 =
     \<lparr>Name = bytes_of ''City'' @ replicate 7 0, Fieldtype = of_char CHR ''C'',
      Addr = replicate 4 0, Size = 50, Precision = 0, Padding = replicate 14 0\<rparr>"
    by (rule Field.equality) (simp_all add: StringField_sel bytes_of_def)
  have long: "Name (StringField ''ExceedsElevenChars'' 10) = bytes_of ''ExceedsElev''"
    by (simp add: StringField_sel bytes_of_def)
  have drop: "drop (length name) (Name (StringField name len)) = replicate (11 - length name) 0"
    by (simp add: StringField_sel len min_def)
  have take: "take (min 11 (length name)) (Name (StringField name len)) = take 11 (bytes_of name)"
    by (simp add: StringField_sel len min_def)
  show ?thesis
    using city long drop take by (simp add: StringField_sel len)
qed

section \<open>Encodings and their inverses\<close>

lemma bit_byte_of32:
  "bit (push_bit k (ucast (ucast (drop_bit k v) :: byte)) :: 32 word) n
     \<longleftrightarrow> k \<le> n \<and> n < k + 8 \<and> n < 32 \<and> bit (v :: 32 word) n"
  by (auto simp add: bit_simps)

lemma bit_byte_of64:
  "bit (push_bit k (ucast (ucast (drop_bit k v) :: byte)) :: 64 word) n
     \<longleftrightarrow> k \<le> n \<and> n < k + 8 \<and> n < 64 \<and> bit (v :: 64 word) n"
  by (auto simp add: bit_simps)

lemma bit_byte0_of32:
  "bit (ucast (ucast v :: byte) :: 32 word) n \<longleftrightarrow> n < 8 \<and> bit (v :: 32 word) n"
  by (auto simp add: bit_simps)

lemma bit_byte0_of64:
  "bit (ucast (ucast v :: byte) :: 64 word) n \<longleftrightarrow> n < 8 \<and> bit (v :: 64 word) n"
  by (auto simp add: bit_simps)

lemma Uint32_PutUint32: "Uint32 (PutUint32 v) = v"
proof (rule bit_word_eqI)
  fix n assume "n < LENGTH(32)"
  then have n: "n < 32" by simp
  have "bit (Uint32 (PutUint32 v)) n \<longleftrightarrow>
    (n < 8 \<or> (8 \<le> n \<and> n < 16) \<or> (16 \<le> n \<and> n < 24) \<or> (24 \<le> n \<and> n < 32)) \<and> bit v n"
    unfolding Uint32_def PutUint32_def
    by (simp add: bit_or_iff bit_byte_of32 bit_byte0_of32 n) blast
  also have "\<dots> \<longleftrightarrow> bit v n"
    using n by auto
  finally show "bit (Uint32 (PutUint32 v)) n \<longleftrightarrow> bit v n" .
qed

lemma Uint64_PutUint64: "Uint64 (PutUint64 v) = v"
proof (rule bit_word_eqI)
  fix n assume "n < LENGTH(64)"
  then have n: "n < 64" by simp
  have "bit (Uint64 (PutUint64 v)) n \<longleftrightarrow>
    (n < 8 \<or> (8 \<le> n \<and> n < 16) \<or> (16 \<le> n \<and> n < 24) \<or> (24 \<le> n \<and> n < 32) \<or>
     (32 \<le> n \<and> n < 40) \<or> (40 \<le> n \<and> n < 48) \<or> (48 \<le> n \<and> n < 56) \<or>
     (56 \<le> n \<and> n < 64)) \<and> bit v n"
    unfolding Uint64_def PutUint64_def
    by (simp add: bit_or_iff bit_byte_of64 bit_byte0_of64 n) blast
  also have "\<dots> \<longleftrightarrow> bit v n"
    using n by auto
  finally show "bit (Uint64 (PutUint64 v)) n \<longleftrightarrow> bit v n" .
qed

lemma length_PutUint32: "length (PutUint32 v) = 4"
  by (simp add: PutUint32_def)

lemma length_PutUint64: "length (PutUint64 v) = 8"
  by (simp add: PutUint64_def)

lemma length_enc:
  "length (enc_int32 v) = 4" "length (enc_Point p) = 16" "length (enc_Box b) = 32"
  by (simp_all add: enc_int32_def enc_Point_def enc_Box_def length_PutUint32 length_PutUint64)

lemma dec_int32_enc: "dec_int32 (enc_int32 v) = v"
  by (simp add: dec_int32_def enc_int32_def Uint32_PutUint32)

lemma dec_Point_enc: "dec_Point (enc_Point p) = p"
  by (simp add: dec_Point_def enc_Point_def length_PutUint64 Uint64_PutUint64)

lemma dec_Box_enc: "dec_Box (enc_Box b) = b"
  by (simp add: dec_Box_def enc_Box_def length_PutUint64 Uint64_PutUint64)

lemma length_enc_slice:
  "(\<And>x. length (enc x) = k) \<Longrightarrow> length (enc_slice enc xs) = k * length xs"
  by (induction xs) (simp_all add: enc_slice_def)

lemma dec_slice_enc_slice:
  assumes "\<And>x. length (enc x) = k" and "\<And>x. dec (enc x) = x"
  shows "dec_slice k dec (length xs) (enc_slice enc xs @ rest) = xs"
  using assms by (induction xs) (simp_all add: enc_slice_def)

lemma length_dec_slice: "length (dec_slice k dec n bs) = n"
  by (induction n arbitrary: bs) simp_all

section \<open>Reading and writing\<close>

lemma binary_Read_ok:
  "sz \<le> length (pending r) \<Longrightarrow>
   binary_Read r sz dec old = (None, r\<lparr>pending := drop sz (pending r)\<rparr>, dec (take sz (pending r)))"
  by (simp add: binary_Read_def ReadFull_def)

lemma binary_Read_short:
  "length (pending r) < sz \<Longrightarrow>
   binary_Read r sz dec old =
     (Some (if pending r \<noteq> [] \<and> fault r = EOF then ErrUnexpectedEOF else fault r),
      r\<lparr>pending := []\<rparr>, old)"
  by (simp add: binary_Read_def ReadFull_def)

lemma binary_Write_unbounded:
  "room w = None \<Longrightarrow> binary_Write w enc x = (None, w\<lparr>sunk := sunk w @ enc x\<rparr>)"
  by (simp add: binary_Write_def Write_def)

lemma PolyLine_write_buffer:
  "sunk (PolyLine_write buffer p) =
     enc_Box (Box p) @ enc_int32 (NumParts p) @ enc_int32 (NumPoints p) @
     enc_slice enc_int32 (Parts p) @ enc_slice enc_Point (Points p)"
  by (simp add: PolyLine_write_def buffer_def binary_Write_unbounded)

lemma Point_write_buffer: "sunk (Point_write buffer p) = enc_Point p"
  by (simp add: Point_write_def buffer_def binary_Write_unbounded)

lemma Null_write_buffer: "sunk (Null_write buffer n) = []"
  by (simp add: Null_write_def buffer_def binary_Write_unbounded)

lemma Null_read_any: "Null_read r n = (r, n)"
  by (simp add: Null_read_def binary_Read_ok)

lemma Point_roundtrip:
  "Point_read \<lparr>pending = enc_Point p @ rest, fault = e\<rparr> p0 = (\<lparr>pending = rest, fault = e\<rparr>, p)"
  by (simp add: Point_read_def binary_Read_ok length_enc dec_Point_enc)

lemma binary_Read_gen:
  "binary_Read r sz dec old =
     (if sz \<le> length (pending r) then None
      else Some (if pending r \<noteq> [] \<and> fault r = EOF then ErrUnexpectedEOF else fault r),
      r\<lparr>pending := drop sz (pending r)\<rparr>,
      if sz \<le> length (pending r) then dec (take sz (pending r)) else old)"
  by (simp add: binary_Read_def ReadFull_def)

section \<open>What PolyLine.read does\<close>

lemma PolyLine_read_steps:
  assumes h1: "binary_Read r 32 dec_Box (Box p) = (e1, r1, b)"
    and h2: "binary_Read r1 4 dec_int32 (NumParts p) = (e2, r2, np)"
    and h3: "binary_Read r2 4 dec_int32 (NumPoints p) = (e3, r3, npt)"
  shows "PolyLine_read heap r p =
    (if sint np < 0 then Panic (r3, p\<lparr>Box := b, NumParts := np, NumPoints := npt\<rparr>)
     else if heap < 4 * nat (sint np) then Fatal
     else if sint npt < 0
     then Panic (r3, p\<lparr>Box := b, NumParts := np, NumPoints := npt,
                       Parts := replicate (nat (sint np)) 0\<rparr>)
     else if heap < 16 * nat (sint npt) then Fatal
     else
      (let (e4, r4, parts) =
             binary_Read r3 (4 * nat (sint np)) (dec_slice 4 dec_int32 (nat (sint np)))
               (replicate (nat (sint np)) 0);
           (e5, r5, points) =
             binary_Read r4 (16 * nat (sint npt)) (dec_slice 16 dec_Point (nat (sint npt)))
               (replicate (nat (sint npt)) zeroPoint)
       in Returned (r5, p\<lparr>Box := b, NumParts := np, NumPoints := npt, Parts := parts,
                          Points := points\<rparr>)))"
  by (simp add: PolyLine_read_def h1 h2 h3 make_slice_def split: prod.splits)

lemma slice_filled:
  assumes "0 < k"
  shows "(if k * n \<le> l - a then dec_slice k dec n bs else replicate n z) =
   (if a + k * n \<le> l then dec_slice k dec n bs else replicate n z)"
proof (cases "n = 0")
  case True
  then show ?thesis by simp
next
  case False
  then have "0 < k * n"
    using assms by simp
  then have "k * n \<le> l - a \<longleftrightarrow> a + k * n \<le> l"
    by arith
  then show ?thesis by simp
qed

text \<open>
  The whole of \<open>read\<close> in closed form: what the receiver holds after the three
  fixed-size reads decides between a panic, the end of the process and a return, and a
  field or array is decoded exactly when the source still holds all of its bytes.
\<close>

lemma PolyLine_read_spec:
  assumes b: "b = (if 32 \<le> length (pending r) then dec_Box (take 32 (pending r)) else Box p)"
    and np: "np = (if 36 \<le> length (pending r) then dec_int32 (take 4 (drop 32 (pending r)))
                   else NumParts p)"
    and npt: "npt = (if 40 \<le> length (pending r) then dec_int32 (take 4 (drop 36 (pending r)))
                    else NumPoints p)"
  shows "PolyLine_read heap r p =
    (if sint np < 0
     then Panic (r\<lparr>pending := drop 40 (pending r)\<rparr>,
                 p\<lparr>Box := b, NumParts := np, NumPoints := npt\<rparr>)
     else if heap < 4 * nat (sint np) then Fatal
     else if sint npt < 0
     then Panic (r\<lparr>pending := drop 40 (pending r)\<rparr>,
                 p\<lparr>Box := b, NumParts := np, NumPoints := npt,
                   Parts := replicate (nat (sint np)) 0\<rparr>)
     else if heap < 16 * nat (sint npt) then Fatal
     else Returned
       (r\<lparr>pending := drop (40 + 4 * nat (sint np) + 16 * nat (sint npt)) (pending r)\<rparr>,
        p\<lparr>Box := b, NumParts := np, NumPoints := npt,
          Parts :=
            (if 40 + 4 * nat (sint np) \<le> length (pending r)
             then dec_slice 4 dec_int32 (nat (sint np))
                    (take (4 * nat (sint np)) (drop 40 (pending r)))
             else replicate (nat (sint np)) 0),
          Points :=
            (if 40 + 4 * nat (sint np) + 16 * nat (sint npt) \<le> length (pending r)
             then dec_slice 16 dec_Point (nat (sint npt))
                    (take (16 * nat (sint npt)) (drop (40 + 4 * nat (sint np)) (pending r)))
             else replicate (nat (sint npt)) zeroPoint)\<rparr>))"
proof -
  let ?bs = "pending r"
  let ?n = "nat (sint np)" and ?m = "nat (sint npt)"
  let ?r1 = "r\<lparr>pending := drop 32 ?bs\<rparr>"
  let ?r2 = "r\<lparr>pending := drop 36 ?bs\<rparr>"
  let ?r3 = "r\<lparr>pending := drop 40 ?bs\<rparr>"
  let ?r4 = "r\<lparr>pending := drop (40 + 4 * ?n) ?bs\<rparr>"
  let ?r5 = "r\<lparr>pending := drop (40 + 4 * ?n + 16 * ?m) ?bs\<rparr>"
  obtain e1 where h1: "binary_Read r 32 dec_Box (Box p) = (e1, ?r1, b)"
    by (simp add: binary_Read_gen b)
  have "4 \<le> length (pending ?r1) \<longleftrightarrow> 36 \<le> length ?bs"
    by auto
  then obtain e2 where h2: "binary_Read ?r1 4 dec_int32 (NumParts p) = (e2, ?r2, np)"
    by (simp add: binary_Read_gen np)
  have "4 \<le> length (pending ?r2) \<longleftrightarrow> 40 \<le> length ?bs"
    by auto
  then obtain e3 where h3: "binary_Read ?r2 4 dec_int32 (NumPoints p) = (e3, ?r3, npt)"
    by (simp add: binary_Read_gen npt)
  obtain e4 where h4:
    "binary_Read ?r3 (4 * ?n) (dec_slice 4 dec_int32 ?n) (replicate ?n 0) =
       (e4, ?r4,
        if 40 + 4 * ?n \<le> length ?bs
        then dec_slice 4 dec_int32 ?n (take (4 * ?n) (drop 40 ?bs))
        else replicate ?n 0)"
    using slice_filled [of 4 ?n "length ?bs" 40 dec_int32 "take (4 * ?n) (drop 40 ?bs)" 0]
    by (simp add: binary_Read_gen add.commute)
  obtain e5 where h5:
    "binary_Read ?r4 (16 * ?m) (dec_slice 16 dec_Point ?m) (replicate ?m zeroPoint) =
       (e5, ?r5,
        if 40 + 4 * ?n + 16 * ?m \<le> length ?bs
        then dec_slice 16 dec_Point ?m (take (16 * ?m) (drop (40 + 4 * ?n) ?bs))
        else replicate ?m zeroPoint)"
    using slice_filled [of 16 ?m "length ?bs" "40 + 4 * ?n" dec_Point
        "take (16 * ?m) (drop (40 + 4 * ?n) ?bs)" zeroPoint]
    by (simp add: binary_Read_gen add.commute)
  show ?thesis
    unfolding PolyLine_read_steps [OF h1 h2 h3]
    by (simp add: h4 h5)
qed

lemma PolyLine_roundtrip:
  assumes "valid_PolyLine p" and "allocatable heap p"
  shows "PolyLine_read heap
      \<lparr>pending = enc_Box (Box p) @ enc_int32 (NumParts p) @ enc_int32 (NumPoints p) @
        enc_slice enc_int32 (Parts p) @ enc_slice enc_Point (Points p) @ rest, fault = e\<rparr> p0
    = Returned (\<lparr>pending = rest, fault = e\<rparr>, p)"
proof -
  have np: "\<not> sint (NumParts p) < 0" "nat (sint (NumParts p)) = length (Parts p)"
    and npt: "\<not> sint (NumPoints p) < 0" "nat (sint (NumPoints p)) = length (Points p)"
    using assms(1) by (simp_all add: valid_PolyLine_def)
  have heap: "\<not> heap < 4 * length (Parts p)" "\<not> heap < 16 * length (Points p)"
    using assms(2) by (simp_all add: allocatable_def)
  have l1: "length (enc_slice enc_int32 (Parts p)) = 4 * length (Parts p)"
    by (rule length_enc_slice) (rule length_enc)
  have l2: "length (enc_slice enc_Point (Points p)) = 16 * length (Points p)"
    by (rule length_enc_slice) (rule length_enc)
  have d1: "dec_slice 4 dec_int32 (length (Parts p)) (enc_slice enc_int32 (Parts p)) = Parts p"
    using dec_slice_enc_slice [of enc_int32 4 dec_int32 "Parts p" "[]"]
    by (simp add: length_enc dec_int32_enc)
  have d2: "dec_slice 16 dec_Point (length (Points p)) (enc_slice enc_Point (Points p)) = Points p"
    using dec_slice_enc_slice [of enc_Point 16 dec_Point "Points p" "[]"]
    by (simp add: length_enc dec_Point_enc)
  show ?thesis
    by (simp add: PolyLine_read_def binary_Read_ok length_enc dec_Box_enc dec_int32_enc
        make_slice_def np npt heap l1 l2 d1 d2)
qed

text \<open>Without a word on the memory: the process may end, but no other value is returned.\<close>

lemma PolyLine_roundtrip_or_Fatal:
  assumes "valid_PolyLine p"
  shows "PolyLine_read heap
      \<lparr>pending = enc_Box (Box p) @ enc_int32 (NumParts p) @ enc_int32 (NumPoints p) @
        enc_slice enc_int32 (Parts p) @ enc_slice enc_Point (Points p) @ rest, fault = e\<rparr> p0
    \<in> {Returned (\<lparr>pending = rest, fault = e\<rparr>, p), Fatal}"
proof (cases "allocatable heap p")
  case True
  then show ?thesis
    using PolyLine_roundtrip [OF assms] by simp
next
  case False
  let ?r = "\<lparr>pending = enc_Box (Box p) @ enc_int32 (NumParts p) @ enc_int32 (NumPoints p) @
        enc_slice enc_int32 (Parts p) @ enc_slice enc_Point (Points p) @ rest, fault = e\<rparr>"
  have np: "NumParts p =
      (if 36 \<le> length (pending ?r) then dec_int32 (take 4 (drop 32 (pending ?r)))
       else NumParts p0)"
    by (simp add: length_enc dec_int32_enc)
  have npt: "NumPoints p =
      (if 40 \<le> length (pending ?r) then dec_int32 (take 4 (drop 36 (pending ?r)))
       else NumPoints p0)"
    by (simp add: length_enc dec_int32_enc)
  have n: "\<not> sint (NumParts p) < 0" "nat (sint (NumParts p)) = length (Parts p)"
    and m: "\<not> sint (NumPoints p) < 0" "nat (sint (NumPoints p)) = length (Points p)"
    using assms(1) by (simp_all add: valid_PolyLine_def)
  have "heap < 4 * length (Parts p) \<or> heap < 16 * length (Points p)"
    using False by (auto simp add: allocatable_def)
  then have "PolyLine_read heap ?r p0 = Fatal"
    unfolding PolyLine_read_spec [OF refl np npt] by (auto simp add: n m)
  then show ?thesis by simp
qed

lemma PolyLine_read_lengths:
  assumes "PolyLine_read heap r p = Returned (r', p')"
  shows "int (length (Parts p')) = sint (NumParts p') \<and>
         int (length (Points p')) = sint (NumPoints p')"
  using assms unfolding PolyLine_read_spec [OF refl refl refl]
  by (auto simp add: length_dec_slice split: if_splits)

section \<open>What the writes do\<close>

lemma binary_Write_limited:
  "room w = Some k \<Longrightarrow>
   binary_Write w enc x =
     (if length (enc x) \<le> k then None else Some ErrShortWrite,
      w\<lparr>sunk := sunk w @ take k (enc x), room := Some (k - length (enc x))\<rparr>)"
  by (simp add: binary_Write_def Write_def)

lemma Point_write_limited:
  "room w = Some k \<Longrightarrow> sunk (Point_write w p) = sunk w @ take k (sunk (Point_write buffer p))"
  unfolding Point_write_buffer by (simp add: Point_write_def binary_Write_limited)

lemma Null_write_limited:
  "room w = Some k \<Longrightarrow> sunk (Null_write w n) = sunk w @ take k (sunk (Null_write buffer n))"
  unfolding Null_write_buffer by (simp add: Null_write_def binary_Write_limited)

lemma PolyLine_write_limited:
  "room w = Some k \<Longrightarrow>
   sunk (PolyLine_write w p) = sunk w @ take k (sunk (PolyLine_write buffer p))"
  unfolding PolyLine_write_buffer by (simp add: PolyLine_write_def binary_Write_limited)

section \<open>Round trip\<close>

text \<open>
  C1. For every geometry variant and every valid value \<open>x\<close> of it (for a PolyLine or
  Polygon: \<open>NumParts\<close> is the length of \<open>Parts\<close> and \<open>NumPoints\<close> the length of
  \<open>Points\<close>), decoding the bytes that encoding \<open>x\<close> produced yields \<open>x\<close>, bit for bit,
  whatever the receiver held before and whatever follows the encoding in the source, and
  the source is left exactly after the encoding. The decoder allocates arrays as long as
  those of \<open>x\<close>: where the memory takes them, as it takes \<open>x\<close> itself, the decode
  returns \<open>x\<close>; with any memory at all, it returns no value other than \<open>x\<close>.
\<close>

theorem decode_encode_roundtrip:
  "Null_read \<lparr>pending = sunk (Null_write buffer n) @ rest, fault = e\<rparr> n0 =
     (\<lparr>pending = rest, fault = e\<rparr>, n) \<and>
   Point_read \<lparr>pending = sunk (Point_write buffer pt) @ rest, fault = e\<rparr> pt0 =
     (\<lparr>pending = rest, fault = e\<rparr>, pt) \<and>
   (valid_PolyLine p \<and> allocatable heap p \<longrightarrow>
    PolyLine_read heap \<lparr>pending = sunk (PolyLine_write buffer p) @ rest, fault = e\<rparr> p0 =
      Returned (\<lparr>pending = rest, fault = e\<rparr>, p)) \<and>
   (valid_PolyLine p \<and> allocatable heap p \<longrightarrow>
    Polygon_read heap \<lparr>pending = sunk (Polygon_write buffer p) @ rest, fault = e\<rparr> p0 =
      Returned (\<lparr>pending = rest, fault = e\<rparr>, p)) \<and>
   (valid_PolyLine p \<longrightarrow>
    PolyLine_read heap \<lparr>pending = sunk (PolyLine_write buffer p) @ rest, fault = e\<rparr> p0
      \<in> {Returned (\<lparr>pending = rest, fault = e\<rparr>, p), Fatal}) \<and>
   (valid_PolyLine p \<longrightarrow>
    Polygon_read heap \<lparr>pending = sunk (Polygon_write buffer p) @ rest, fault = e\<rparr> p0
      \<in> {Returned (\<lparr>pending = rest, fault = e\<rparr>, p), Fatal})"
proof -
  have null: "Null_read \<lparr>pending = sunk (Null_write buffer n) @ rest, fault = e\<rparr> n0 =
     (\<lparr>pending = rest, fault = e\<rparr>, n)"
    by (simp add: Null_read_any Null_write_buffer)
  have point: "Point_read \<lparr>pending = sunk (Point_write buffer pt) @ rest, fault = e\<rparr> pt0 =
     (\<lparr>pending = rest, fault = e\<rparr>, pt)"
    by (simp add: Point_write_buffer Point_roundtrip)
  have poly: "PolyLine_read heap
      \<lparr>pending = sunk (PolyLine_write buffer p) @ rest, fault = e\<rparr> p0 =
      Returned (\<lparr>pending = rest, fault = e\<rparr>, p)"
    if "valid_PolyLine p" and "allocatable heap p"
    using PolyLine_roundtrip [OF that, of rest e p0] by (simp add: PolyLine_write_buffer)
  have any: "PolyLine_read heap
      \<lparr>pending = sunk (PolyLine_write buffer p) @ rest, fault = e\<rparr> p0
      \<in> {Returned (\<lparr>pending = rest, fault = e\<rparr>, p), Fatal}"
    if "valid_PolyLine p"
    using PolyLine_roundtrip_or_Fatal [OF that, of heap rest e p0]
    by (simp add: PolyLine_write_buffer)
  show ?thesis
    using null point poly any by (simp add: Polygon_read_eq Polygon_write_eq)
qed

text \<open>A valid PolyLine with one part and the two points (1, 2) and (-1, 5).\<close>

theorem decode_encode_roundtrip_witness:
  "valid_PolyLine
     \<lparr>Box = \<lparr>MinX = 0xBFF0000000000000, MinY = 0x4000000000000000,
              MaxX = 0x3FF0000000000000, MaxY = 0x4014000000000000\<rparr>,
      NumParts = 1, NumPoints = 2, Parts = [0],
      Points = [\<lparr>X = 0x3FF0000000000000, Y = 0x4000000000000000\<rparr>,
                \<lparr>X = 0xBFF0000000000000, Y = 0x4014000000000000\<rparr>]\<rparr> \<and>
   allocatable 32
     \<lparr>Box = \<lparr>MinX = 0xBFF0000000000000, MinY = 0x4000000000000000,
              MaxX = 0x3FF0000000000000, MaxY = 0x4014000000000000\<rparr>,
      NumParts = 1, NumPoints = 2, Parts = [0],
      Points = [\<lparr>X = 0x3FF0000000000000, Y = 0x4000000000000000\<rparr>,
                \<lparr>X = 0xBFF0000000000000, Y = 0x4014000000000000\<rparr>]\<rparr> \<and>
   PolyLine_read 32
     \<lparr>pending = sunk (PolyLine_write buffer
        \<lparr>Box = \<lparr>MinX = 0xBFF0000000000000, MinY = 0x4000000000000000,
                 MaxX = 0x3FF0000000000000, MaxY = 0x4014000000000000\<rparr>,
         NumParts = 1, NumPoints = 2, Parts = [0],
         Points = [\<lparr>X = 0x3FF0000000000000, Y = 0x4000000000000000\<rparr>,
                   \<lparr>X = 0xBFF0000000000000, Y = 0x4014000000000000\<rparr>]\<rparr>) @ [],
      fault = EOF\<rparr> zeroPolyLine =
   Returned (\<lparr>pending = [], fault = EOF\<rparr>,
     \<lparr>Box = \<lparr>MinX = 0xBFF0000000000000, MinY = 0x4000000000000000,
              MaxX = 0x3FF0000000000000, MaxY = 0x4014000000000000\<rparr>,
      NumParts = 1, NumPoints = 2, Parts = [0],
      Points = [\<lparr>X = 0x3FF0000000000000, Y = 0x4000000000000000\<rparr>,
                \<lparr>X = 0xBFF0000000000000, Y = 0x4014000000000000\<rparr>]\<rparr>) \<and>
   Polygon_read 32
     \<lparr>pending = sunk (Polygon_write buffer
        \<lparr>Box = \<lparr>MinX = 0xBFF0000000000000, MinY = 0x4000000000000000,
                 MaxX = 0x3FF0000000000000, MaxY = 0x4014000000000000\<rparr>,
         NumParts = 1, NumPoints = 2, Parts = [0],
         Points = [\<lparr>X = 0x3FF0000000000000, Y = 0x4000000000000000\<rparr>,
                   \<lparr>X = 0xBFF0000000000000, Y = 0x4014000000000000\<rparr>]\<rparr>) @ [],
      fault = EOF\<rparr> zeroPolyLine =
   Returned (\<lparr>pending = [], fault = EOF\<rparr>,
     \<lparr>Box = \<lparr>MinX = 0xBFF0000000000000, MinY = 0x4000000000000000,
              MaxX = 0x3FF0000000000000, MaxY = 0x4014000000000000\<rparr>,
      NumParts = 1, NumPoints = 2, Parts = [0],
      Points = [\<lparr>X = 0x3FF0000000000000, Y = 0x4000000000000000\<rparr>,
                \<lparr>X = 0xBFF0000000000000, Y = 0x4014000000000000\<rparr>]\<rparr>)"
proof -
  let ?p = "\<lparr>Box = \<lparr>MinX = 0xBFF0000000000000, MinY = 0x4000000000000000,
              MaxX = 0x3FF0000000000000, MaxY = 0x4014000000000000\<rparr>,
      NumParts = 1, NumPoints = 2, Parts = [0],
      Points = [\<lparr>X = 0x3FF0000000000000, Y = 0x4000000000000000\<rparr>,
                \<lparr>X = 0xBFF0000000000000, Y = 0x4014000000000000\<rparr>]\<rparr>"
  have v: "valid_PolyLine ?p"
    by (simp add: valid_PolyLine_def)
  have a: "allocatable 32 ?p"
    by (simp add: allocatable_def)
  show ?thesis
    using v a
      decode_encode_roundtrip [of "()" "[]" EOF "()" zeroPoint zeroPoint ?p 32 zeroPolyLine]
    by blast
qed

section \<open>Lengths\<close>

text \<open>
  C8. Every PolyLine or Polygon value that \<open>read\<close> returns has \<open>len(Parts) == NumParts\<close>
  and \<open>len(Points) == NumPoints\<close>: the slices are made with exactly the counts the
  receiver then holds, and \<open>binary.Read\<close> does not change the length of a slice.
\<close>

theorem decoded_lengths_match_counts:
  "(PolyLine_read heap r p = Returned (r', p') \<longrightarrow>
      int (length (Parts p')) = sint (NumParts p') \<and>
      int (length (Points p')) = sint (NumPoints p')) \<and>
   (Polygon_read heap r p = Returned (r', p') \<longrightarrow>
      int (length (Parts p')) = sint (NumParts p') \<and>
      int (length (Points p')) = sint (NumPoints p'))"
  using PolyLine_read_lengths [of heap r p r' p'] by (simp add: Polygon_read_eq)

text \<open>A complete record with two parts and one point.\<close>

theorem decoded_lengths_match_counts_witness:
  "PolyLine_read 64
     \<lparr>pending = replicate 32 0 @ [2, 0, 0, 0, 1, 0, 0, 0, 5, 0, 0, 0, 7, 0, 0, 0] @
        replicate 16 9, fault = EOF\<rparr> zeroPolyLine =
   Returned
     (\<lparr>pending = [], fault = EOF\<rparr>,
      \<lparr>Box = zeroBox, NumParts = 2, NumPoints = 1, Parts = [5, 7],
        Points = [\<lparr>X = 0x0909090909090909, Y = 0x0909090909090909\<rparr>]\<rparr>) \<and>
   Polygon_read 64
     \<lparr>pending = replicate 32 0 @ [2, 0, 0, 0, 1, 0, 0, 0, 5, 0, 0, 0, 7, 0, 0, 0] @
        replicate 16 9, fault = EOF\<rparr> zeroPolyLine =
   Returned
     (\<lparr>pending = [], fault = EOF\<rparr>,
      \<lparr>Box = zeroBox, NumParts = 2, NumPoints = 1, Parts = [5, 7],
        Points = [\<lparr>X = 0x0909090909090909, Y = 0x0909090909090909\<rparr>]\<rparr>) \<and>
   int (length [5, 7 :: int32]) = sint (2 :: int32) \<and>
   int (length [\<lparr>X = 0x0909090909090909, Y = 0x0909090909090909\<rparr>]) = sint (1 :: int32)"
proof -
  let ?r = "\<lparr>pending = replicate 32 0 @ [2, 0, 0, 0, 1, 0, 0, 0, 5, 0, 0, 0, 7, 0, 0, 0] @
        replicate 16 9, fault = EOF\<rparr>"
  let ?r' = "\<lparr>pending = [], fault = EOF\<rparr>"
  let ?p' = "\<lparr>Box = zeroBox, NumParts = 2, NumPoints = 1, Parts = [5, 7],
        Points = [\<lparr>X = 0x0909090909090909, Y = 0x0909090909090909\<rparr>]\<rparr>"
  have a: "PolyLine_read 64 ?r zeroPolyLine = Returned (?r', ?p')"
    by code_simp
  have b: "Polygon_read 64 ?r zeroPolyLine = Returned (?r', ?p')"
    by code_simp
  show ?thesis
    using a b decoded_lengths_match_counts [of 64 ?r zeroPolyLine ?r' ?p']
    by simp
qed

section \<open>Truncated sources\<close>

text \<open>
  C2 (as stated) fails: \<open>read\<close> has no error result. On a source that ends after
  \<open>NumPoints\<close> (32 bytes of box, \<open>NumParts\<close> = 1, \<open>NumPoints\<close> = 1, no array bytes) it
  returns normally, with both arrays allocated and zero-filled.
\<close>

theorem PolyLine_read_truncated_counterexample:
  "PolyLine_read 64
     \<lparr>pending = replicate 32 0 @ [1, 0, 0, 0, 1, 0, 0, 0], fault = EOF\<rparr> zeroPolyLine =
   Returned
     (\<lparr>pending = [], fault = EOF\<rparr>,
      \<lparr>Box = zeroBox, NumParts = 1, NumPoints = 1, Parts = [0], Points = [zeroPoint]\<rparr>)"
  by code_simp

text \<open>
  C2 (as amended). Take a PolyLine decode whose source is exhausted before a fixed-size
  field completes, or whose declared array lengths demand more bytes than remain: with
  \<open>np\<close> and \<open>npt\<close> the counts the receiver holds after the count reads (decoded, or its
  own where the source ended before), the source has fewer than
  \<open>40 + 4 * np + 16 * npt\<close> bytes. The decode does not fail with an error: the error of
  \<open>binary.Read\<close> is discarded and, provided the counts held are not negative and arrays
  of these counts can be allocated, \<open>read\<close> returns normally with the source drained. A
  fixed-size field that could not be read keeps the value the receiver had, the arrays
  have the lengths of the counts held, and an array that could not be read in full is
  zero-filled throughout.
\<close>

theorem PolyLine_read_truncated_returns:
  assumes np: "np = (if 36 \<le> length (pending r) then dec_int32 (take 4 (drop 32 (pending r)))
                     else NumParts p)"
    and npt: "npt = (if 40 \<le> length (pending r) then dec_int32 (take 4 (drop 36 (pending r)))
                     else NumPoints p)"
    and short: "length (pending r) < 40 + 4 * nat (sint np) + 16 * nat (sint npt)"
    and nonneg: "0 \<le> sint np" "0 \<le> sint npt"
    and fits: "4 * nat (sint np) \<le> heap" "16 * nat (sint npt) \<le> heap"
  shows "PolyLine_read heap r p =
    Returned (r\<lparr>pending := []\<rparr>,
      p\<lparr>Box := (if 32 \<le> length (pending r) then dec_Box (take 32 (pending r)) else Box p),
        NumParts := np, NumPoints := npt,
        Parts :=
          (if 40 + 4 * nat (sint np) \<le> length (pending r)
           then dec_slice 4 dec_int32 (nat (sint np))
                  (take (4 * nat (sint np)) (drop 40 (pending r)))
           else replicate (nat (sint np)) 0),
        Points := replicate (nat (sint npt)) zeroPoint\<rparr>)"
  unfolding PolyLine_read_spec [OF refl np npt]
  using short nonneg fits by simp

text \<open>
  A source that ends inside \<open>Parts\<close>: two parts and one point declared, one part
  delivered.
\<close>

theorem PolyLine_read_truncated_returns_witness:
  "length (replicate 32 0 @ [2, 0, 0, 0, 1, 0, 0, 0, 5, 0, 0, 0] :: byte list) <
     40 + 4 * nat (sint (2 :: int32)) + 16 * nat (sint (1 :: int32)) \<and>
   (0::int) \<le> sint (2 :: int32) \<and> (0::int) \<le> sint (1 :: int32) \<and>
   4 * nat (sint (2 :: int32)) \<le> (64 :: nat) \<and> 16 * nat (sint (1 :: int32)) \<le> (64 :: nat) \<and>
   PolyLine_read 64
     \<lparr>pending = replicate 32 0 @ [2, 0, 0, 0, 1, 0, 0, 0, 5, 0, 0, 0], fault = EOF\<rparr>
     zeroPolyLine =
   Returned
     (\<lparr>pending = [], fault = EOF\<rparr>,
      \<lparr>Box = zeroBox, NumParts = 2, NumPoints = 1, Parts = [0, 0], Points = [zeroPoint]\<rparr>)"
proof -
  let ?bs = "replicate 32 0 @ [2, 0, 0, 0, 1, 0, 0, 0, 5, 0, 0, 0] :: byte list"
  let ?r = "\<lparr>pending = ?bs, fault = EOF\<rparr>"
  let ?e = "\<lparr>pending = [], fault = EOF\<rparr>"
  have np: "2 = (if 36 \<le> length (pending ?r) then dec_int32 (take 4 (drop 32 (pending ?r)))
                 else NumParts zeroPolyLine)"
    by code_simp
  have npt: "1 = (if 40 \<le> length (pending ?r) then dec_int32 (take 4 (drop 36 (pending ?r)))
                  else NumPoints zeroPolyLine)"
    by code_simp
  have h: "length (pending ?r) < 40 + 4 * nat (sint (2 :: int32)) + 16 * nat (sint (1 :: int32))"
    "(0::int) \<le> sint (2 :: int32)" "(0::int) \<le> sint (1 :: int32)"
    "4 * nat (sint (2 :: int32)) \<le> (64 :: nat)" "16 * nat (sint (1 :: int32)) \<le> (64 :: nat)"
    by simp_all
  have box: "dec_Box (take 32 (pending ?r)) = zeroBox"
    by code_simp
  have "PolyLine_read 64 ?r zeroPolyLine =
    Returned (?e, \<lparr>Box = zeroBox, NumParts = 2, NumPoints = 1, Parts = [0, 0],
      Points = [zeroPoint]\<rparr>)"
    using PolyLine_read_truncated_returns [OF np npt h] box
    by (simp add: zeroPolyLine_def numeral_2_eq_2)
  then show ?thesis
    using h by simp
qed

section \<open>No error channel\<close>

lemma Point_read_spec:
  "Point_read r pt =
     (r\<lparr>pending := drop 16 (pending r)\<rparr>,
      if 16 \<le> length (pending r) then dec_Point (take 16 (pending r)) else pt)"
  by (simp add: Point_read_def binary_Read_gen)

lemma Point_read_error:
  "length (pending r) < 16 \<Longrightarrow> fst (binary_Read r 16 dec_Point pt) \<noteq> None"
  by (simp add: binary_Read_gen)

lemma Point_write_short:
  "room w = Some k \<Longrightarrow> k < 16 \<Longrightarrow> fst (binary_Write w enc_Point pt) = Some ErrShortWrite"
  by (simp add: binary_Write_limited length_enc)

lemma PolyLine_read_returns:
  assumes np: "np = (if 36 \<le> length (pending r) then dec_int32 (take 4 (drop 32 (pending r)))
                     else NumParts p)"
    and npt: "npt = (if 40 \<le> length (pending r) then dec_int32 (take 4 (drop 36 (pending r)))
                     else NumPoints p)"
  shows "(\<exists>s. PolyLine_read heap r p = Returned s) \<longleftrightarrow>
     0 \<le> sint np \<and> 0 \<le> sint npt \<and> 4 * nat (sint np) \<le> heap \<and> 16 * nat (sint npt) \<le> heap"
  unfolding PolyLine_read_spec [OF refl np npt] by auto

text \<open>
  With both counts 2147483647 and 16 GiB for an allocation, \<open>Parts\<close> is made and the
  process ends when \<open>Points\<close> is.
\<close>

lemma PolyLine_read_out_of_memory:
  "PolyLine_read 17179869184
     \<lparr>pending = replicate 32 0 @ [0xFF, 0xFF, 0xFF, 0x7F, 0xFF, 0xFF, 0xFF, 0x7F], fault = EOF\<rparr>
     zeroPolyLine = Fatal"
proof -
  let ?r = "\<lparr>pending = replicate 32 0 @ [0xFF, 0xFF, 0xFF, 0x7F, 0xFF, 0xFF, 0xFF, 0x7F],
            fault = EOF\<rparr>"
  have np: "0x7FFFFFFF = (if 36 \<le> length (pending ?r)
      then dec_int32 (take 4 (drop 32 (pending ?r))) else NumParts zeroPolyLine)"
    by code_simp
  have npt: "0x7FFFFFFF = (if 40 \<le> length (pending ?r)
      then dec_int32 (take 4 (drop 36 (pending ?r))) else NumPoints zeroPolyLine)"
    by code_simp
  have s: "sint (0x7FFFFFFF :: int32) = 2147483647"
    by simp
  show ?thesis
    unfolding PolyLine_read_spec [OF refl np npt] by (simp add: s)
qed

text \<open>
  C10 (as stated) fails where a count is negative: on a source that ends after a
  \<open>NumParts\<close> of -1 the end-of-input error of the next read is discarded, and then
  \<open>make([]int32, p.NumParts)\<close> panics; the call does not return normally.
\<close>

theorem read_write_panic_counterexample:
  "PolyLine_read 64
     \<lparr>pending = replicate 32 0 @ [0xFF, 0xFF, 0xFF, 0xFF], fault = EOF\<rparr> zeroPolyLine =
   Panic
     (\<lparr>pending = [], fault = EOF\<rparr>,
      \<lparr>Box = zeroBox, NumParts = - 1, NumPoints = 0, Parts = [], Points = []\<rparr>)"
  by code_simp

text \<open>
  C10 (as amended). The \<open>read\<close> and \<open>write\<close> operations of the geometry variants have no
  error result, and every error of the underlying source or sink is discarded.
  \<open>Null.read\<close>, \<open>Point.read\<close> and every \<open>write\<close> always return normally. \<open>PolyLine.read\<close>
  and \<open>Polygon.read\<close> return normally exactly when the \<open>NumParts\<close> and \<open>NumPoints\<close> the
  receiver holds after the count reads are not negative and arrays of these counts can be
  allocated; on a negative count \<open>make\<close> panics, and on a count too large for the memory
  the process ends. On every source, short or empty ones too, a field or array is decoded
  exactly when the source still holds all of its bytes; otherwise a fixed-size field
  keeps the value the receiver had (zero in a fresh receiver) and an array is zero-filled.
  A sink with room for \<open>k\<close> more bytes receives the first \<open>k\<close> bytes of the encoding.
\<close>

theorem read_write_no_error_channel:
  assumes b: "b = (if 32 \<le> length (pending r) then dec_Box (take 32 (pending r)) else Box p)"
    and np: "np = (if 36 \<le> length (pending r) then dec_int32 (take 4 (drop 32 (pending r)))
                   else NumParts p)"
    and npt: "npt = (if 40 \<le> length (pending r) then dec_int32 (take 4 (drop 36 (pending r)))
                    else NumPoints p)"
  shows
   "Null_read r n = (r, n) \<and>
    Point_read r pt =
      (r\<lparr>pending := drop 16 (pending r)\<rparr>,
       if 16 \<le> length (pending r) then dec_Point (take 16 (pending r)) else pt) \<and>
    (length (pending r) < 16 \<longrightarrow> fst (binary_Read r 16 dec_Point pt) \<noteq> None) \<and>
    PolyLine_read heap r p =
      (if sint np < 0
       then Panic (r\<lparr>pending := drop 40 (pending r)\<rparr>,
                   p\<lparr>Box := b, NumParts := np, NumPoints := npt\<rparr>)
       else if heap < 4 * nat (sint np) then Fatal
       else if sint npt < 0
       then Panic (r\<lparr>pending := drop 40 (pending r)\<rparr>,
                   p\<lparr>Box := b, NumParts := np, NumPoints := npt,
                     Parts := replicate (nat (sint np)) 0\<rparr>)
       else if heap < 16 * nat (sint npt) then Fatal
       else Returned
         (r\<lparr>pending := drop (40 + 4 * nat (sint np) + 16 * nat (sint npt)) (pending r)\<rparr>,
          p\<lparr>Box := b, NumParts := np, NumPoints := npt,
            Parts :=
              (if 40 + 4 * nat (sint np) \<le> length (pending r)
               then dec_slice 4 dec_int32 (nat (sint np))
                      (take (4 * nat (sint np)) (drop 40 (pending r)))
               else replicate (nat (sint np)) 0),
            Points :=
              (if 40 + 4 * nat (sint np) + 16 * nat (sint npt) \<le> length (pending r)
               then dec_slice 16 dec_Point (nat (sint npt))
                      (take (16 * nat (sint npt)) (drop (40 + 4 * nat (sint np)) (pending r)))
               else replicate (nat (sint npt)) zeroPoint)\<rparr>)) \<and>
    Polygon_read heap r p = PolyLine_read heap r p \<and>
    ((\<exists>s. PolyLine_read heap r p = Returned s) \<longleftrightarrow>
       0 \<le> sint np \<and> 0 \<le> sint npt \<and> 4 * nat (sint np) \<le> heap \<and>
       16 * nat (sint npt) \<le> heap) \<and>
    (room w = Some k \<longrightarrow>
      sunk (Null_write w n) = sunk w @ take k (sunk (Null_write buffer n)) \<and>
      sunk (Point_write w pt) = sunk w @ take k (sunk (Point_write buffer pt)) \<and>
      sunk (PolyLine_write w p) = sunk w @ take k (sunk (PolyLine_write buffer p)) \<and>
      sunk (Polygon_write w p) = sunk w @ take k (sunk (Polygon_write buffer p)) \<and>
      (k < 16 \<longrightarrow> fst (binary_Write w enc_Point pt) = Some ErrShortWrite))"
proof -
  have writes: "room w = Some k \<longrightarrow>
      sunk (Null_write w n) = sunk w @ take k (sunk (Null_write buffer n)) \<and>
      sunk (Point_write w pt) = sunk w @ take k (sunk (Point_write buffer pt)) \<and>
      sunk (PolyLine_write w p) = sunk w @ take k (sunk (PolyLine_write buffer p)) \<and>
      sunk (Polygon_write w p) = sunk w @ take k (sunk (Polygon_write buffer p)) \<and>
      (k < 16 \<longrightarrow> fst (binary_Write w enc_Point pt) = Some ErrShortWrite)"
    using Null_write_limited [of w k n] Point_write_limited [of w k pt]
      PolyLine_write_limited [of w k p] Point_write_short [of w k pt]
    unfolding Polygon_write_eq by blast
  have polygon: "Polygon_read heap r p = PolyLine_read heap r p"
    by (simp add: Polygon_read_eq)
  show ?thesis
    using Null_read_any [of r n] Point_read_spec [of r pt] Point_read_error [of r pt]
      PolyLine_read_spec [OF b np npt, of heap] polygon
      PolyLine_read_returns [OF np npt, of heap] writes
    by (intro conjI) blast+
qed

text \<open>A source of three bytes, fresh receivers, and a sink with room for three bytes.\<close>

theorem read_write_no_error_channel_witness:
  "Point_read \<lparr>pending = [1, 2, 3], fault = EOF\<rparr> zeroPoint =
     (\<lparr>pending = [], fault = EOF\<rparr>, zeroPoint) \<and>
   fst (binary_Read \<lparr>pending = [1, 2, 3], fault = EOF\<rparr> 16 dec_Point zeroPoint) \<noteq> None \<and>
   PolyLine_read 64 \<lparr>pending = [1, 2, 3], fault = EOF\<rparr> zeroPolyLine =
     Returned (\<lparr>pending = [], fault = EOF\<rparr>, zeroPolyLine) \<and>
   Polygon_read 64 \<lparr>pending = [1, 2, 3], fault = EOF\<rparr> zeroPolyLine =
     Returned (\<lparr>pending = [], fault = EOF\<rparr>, zeroPolyLine) \<and>
   room \<lparr>sunk = [], room = Some 3\<rparr> = Some 3 \<and>
   fst (binary_Write \<lparr>sunk = [], room = Some 3\<rparr> enc_Point zeroPoint) = Some ErrShortWrite \<and>
   sunk (Point_write \<lparr>sunk = [], room = Some 3\<rparr> zeroPoint) = [0, 0, 0]"
proof -
  let ?r = "\<lparr>pending = [1, 2, 3], fault = EOF\<rparr>"
  let ?w = "\<lparr>sunk = [], room = Some 3\<rparr>"
  have b: "zeroBox = (if 32 \<le> length (pending ?r) then dec_Box (take 32 (pending ?r))
                     else Box zeroPolyLine)"
    and np: "0 = (if 36 \<le> length (pending ?r) then dec_int32 (take 4 (drop 32 (pending ?r)))
                  else NumParts zeroPolyLine)"
    and npt: "0 = (if 40 \<le> length (pending ?r) then dec_int32 (take 4 (drop 36 (pending ?r)))
                   else NumPoints zeroPolyLine)"
    by (simp_all add: zeroPolyLine_def)
  have enc: "take 3 (sunk (Point_write buffer zeroPoint)) = [0, 0, 0]"
    by code_simp
  show ?thesis
    using enc read_write_no_error_channel [OF b np npt, of "()" zeroPoint 64 ?w 3]
    by (simp add: zeroPolyLine_def)
qed

end
